theory Spec2Isabelle
  imports Main
begin

section \<open>The GitRepository model of nautobot/extras/models/datasources.py\<close>

subsection \<open>Data\<close>

text \<open>
  A UUID is kept in its textual form, the form the source interpolates into the name and
  the slug of a clone.
\<close>

type_synonym uuid = string

text \<open>
  One \<^verbatim>\<open>GitRepository\<close> instance. The first eight fields are the columns of the model
  (\<^verbatim>\<open>pk\<close> is \<^verbatim>\<open>None\<close> after \<^verbatim>\<open>cloned_git_repo.pk = None\<close> until \<^verbatim>\<open>save()\<close>
  assigns one). \<^verbatim>\<open>initial_slug\<close> is the private attribute \<^verbatim>\<open>__initial_slug\<close> that
  \<^verbatim>\<open>__init__\<close> stores, and \<^verbatim>\<open>present_in_database\<close> is the property of the same name
  that \<^verbatim>\<open>clean\<close> reads.
\<close>

record GitRepository =
  pk :: "uuid option"
  name :: string
  slug :: string
  remote_url :: string
  branch :: string
  current_head :: string
  secrets_group :: "uuid option"
  provided_contents :: "string list"
  initial_slug :: string
  present_in_database :: bool

text \<open>
  Every \<^verbatim>\<open>ValidationError\<close> of \<^verbatim>\<open>clean\<close> carries the values its message interpolates;
  the other constructors are the remaining exceptions of the module. \<^verbatim>\<open>GitError\<close> stands
  for whatever exception the Git helpers raise.
\<close>

datatype validation_error =
    SlugChanged string string
  | SlugNotGraphQLSafe string
  | SlugIsModule string
  | ContentsOverlap string

datatype error =
    ValidationError validation_error
  | ValueError string
  | DoesNotExist
  | MultipleObjectsReturned
  | GitError string

subsection \<open>The table \<^verbatim>\<open>GitRepository.objects\<close>\<close>

text \<open>
  The table is the list of its rows. \<^verbatim>\<open>filter\<close>, \<^verbatim>\<open>exclude\<close>, \<^verbatim>\<open>exists\<close> and
  \<^verbatim>\<open>get\<close> are the query-set operations \<^verbatim>\<open>clean\<close> uses.
\<close>

definition filter_remote_url :: "string \<Rightarrow> GitRepository list \<Rightarrow> GitRepository list" where
  "filter_remote_url url rows = filter (\<lambda>r. remote_url r = url) rows"

definition exclude_id :: "uuid option \<Rightarrow> GitRepository list \<Rightarrow> GitRepository list" where
  "exclude_id i rows = filter (\<lambda>r. pk r \<noteq> i) rows"

definition exists_rows :: "GitRepository list \<Rightarrow> bool" where
  "exists_rows rows = (rows \<noteq> [])"

definition get_id :: "uuid option \<Rightarrow> GitRepository list \<Rightarrow> error + GitRepository" where
  "get_id i rows =
     (case filter (\<lambda>r. pk r = i) rows of
        [] \<Rightarrow> Inl DoesNotExist
      | [r] \<Rightarrow> Inr r
      | _ \<Rightarrow> Inl MultipleObjectsReturned)"

text \<open>
  The lookup \<^verbatim>\<open>provided_contents__contains=item\<close> on the JSON list, and the loop
  \<^verbatim>\<open>q = Q(); for item in ...: q |= Q(...)\<close>. The empty \<^verbatim>\<open>Q()\<close> is \<^verbatim>\<open>None\<close>: it
  filters nothing out, and or-ing a condition into it gives that condition.
\<close>

definition provided_contents__contains :: "string \<Rightarrow> GitRepository \<Rightarrow> bool" where
  "provided_contents__contains item r = (item \<in> set (provided_contents r))"

fun build_q :: "string list \<Rightarrow> (GitRepository \<Rightarrow> bool) option \<Rightarrow> (GitRepository \<Rightarrow> bool) option" where
  "build_q [] q = q"
| "build_q (item # items) q =
     build_q items
       (Some (case q of
                None \<Rightarrow> provided_contents__contains item
              | Some p \<Rightarrow> (\<lambda>r. p r \<or> provided_contents__contains item r)))"

definition filter_q :: "(GitRepository \<Rightarrow> bool) option \<Rightarrow> GitRepository list \<Rightarrow> GitRepository list" where
  "filter_q q rows = (case q of None \<Rightarrow> rows | Some p \<Rightarrow> filter p rows)"

definition duplicate_repos :: "GitRepository list \<Rightarrow> GitRepository \<Rightarrow> GitRepository list" where
  "duplicate_repos objects self =
     filter_q (build_q (provided_contents self) None)
       (exclude_id (pk self) (filter_remote_url (remote_url self) objects))"

subsection \<open>Helpers of \<^verbatim>\<open>clean\<close> that live outside the module\<close>

text \<open>
  \<^verbatim>\<open>clean\<close> calls three functions that are not part of the module: the slug generator
  \<^verbatim>\<open>create_slug\<close> of the slug field, \<^verbatim>\<open>check_if_key_is_graphql_safe\<close> and Python's
  \<^verbatim>\<open>find_spec\<close>. The model of \<^verbatim>\<open>clean\<close> takes all three as parameters. The
  definitions of this subsection are concrete instances for them.
\<close>

definition is_alpha_or_underscore :: "char \<Rightarrow> bool" where
  "is_alpha_or_underscore c =
     (let n = (of_char c :: nat) in
      (65 \<le> n \<and> n \<le> 90) \<or> (97 \<le> n \<and> n \<le> 122) \<or> n = 95)"

definition is_digit :: "char \<Rightarrow> bool" where
  "is_digit c = (let n = (of_char c :: nat) in 48 \<le> n \<and> n \<le> 57)"

text \<open>
  Modelled from the spec: \<^verbatim>\<open>check_if_key_is_graphql_safe\<close> of \<^verbatim>\<open>nautobot.extras.utils\<close>
  is not among the sources. The spec has it accept a slug that is alphanumeric plus
  underscore and does not start with a digit.
\<close>

definition graphql_safe :: "string \<Rightarrow> bool" where
  "graphql_safe s =
     (case s of
        [] \<Rightarrow> False
      | c # cs \<Rightarrow> is_alpha_or_underscore c \<and> list_all (\<lambda>d. is_alpha_or_underscore d \<or> is_digit d) cs)"

text \<open>
  Modelled from the spec: \<^verbatim>\<open>AutoSlugField.create_slug\<close> of \<^verbatim>\<open>nautobot.core.models.fields\<close>
  is not among the sources. The spec derives the slug from the name: lowercase, every
  character that is not alphanumeric becomes an underscore.
\<close>

definition slug_char :: "char \<Rightarrow> char" where
  "slug_char c =
     (let n = (of_char c :: nat) in
      if 65 \<le> n \<and> n \<le> 90 then char_of (n + 32)
      else if (97 \<le> n \<and> n \<le> 122) \<or> (48 \<le> n \<and> n \<le> 57) then c
      else CHR ''_'')"

definition spec_create_slug :: "GitRepository list \<Rightarrow> GitRepository \<Rightarrow> bool \<Rightarrow> string" where
  "spec_create_slug objects self add = map slug_char (name self)"

subsection \<open>\<^verbatim>\<open>GitRepository.clean\<close>\<close>

text \<open>
  The steps of \<^verbatim>\<open>clean\<close>, in the order of the source. \<^verbatim>\<open>super().clean()\<close> is the
  validation hook of the base class, which is outside the module and taken to pass.
  A check returns \<^verbatim>\<open>Some e\<close> where the source raises. The Boolean \<^verbatim>\<open>find_spec s\<close>
  says that \<^verbatim>\<open>find_spec(s) is not None\<close>.
\<close>

definition autogenerate_slug ::
  "(GitRepository list \<Rightarrow> GitRepository \<Rightarrow> bool \<Rightarrow> string) \<Rightarrow> GitRepository list \<Rightarrow> GitRepository \<Rightarrow> GitRepository" where
  "autogenerate_slug create_slug objects self =
     (if slug self = ''''
      then self\<lparr>slug := create_slug objects self (\<not> present_in_database self)\<rparr>
      else self)"

definition check_slug_unchanged :: "GitRepository \<Rightarrow> error option" where
  "check_slug_unchanged self =
     (if present_in_database self \<and> slug self \<noteq> initial_slug self
      then Some (ValidationError (SlugChanged (initial_slug self) (slug self)))
      else None)"

definition check_slug_on_create :: "(string \<Rightarrow> bool) \<Rightarrow> (string \<Rightarrow> bool) \<Rightarrow> GitRepository \<Rightarrow> error option" where
  "check_slug_on_create is_graphql_safe find_spec self =
     (if \<not> present_in_database self then
        (if \<not> is_graphql_safe (slug self) then Some (ValidationError (SlugNotGraphQLSafe (slug self)))
         else if find_spec (slug self) then Some (ValidationError (SlugIsModule (slug self)))
         else None)
      else None)"

definition check_overlap :: "GitRepository list \<Rightarrow> GitRepository \<Rightarrow> error option" where
  "check_overlap objects self =
     (if provided_contents self \<noteq> [] then
        (if exists_rows (duplicate_repos objects self)
         then Some (ValidationError (ContentsOverlap (remote_url self)))
         else None)
      else None)"

definition invalidate_head :: "GitRepository list \<Rightarrow> GitRepository \<Rightarrow> error + GitRepository" where
  "invalidate_head objects self =
     (if present_in_database self then
        (case get_id (pk self) objects of
           Inl e \<Rightarrow> Inl e
         | Inr past \<Rightarrow>
             (if remote_url self \<noteq> remote_url past \<or> branch self \<noteq> branch past
              then Inr (self\<lparr>current_head := ''''\<rparr>)
              else Inr self))
      else Inr self)"

definition clean ::
  "(GitRepository list \<Rightarrow> GitRepository \<Rightarrow> bool \<Rightarrow> string) \<Rightarrow> (string \<Rightarrow> bool) \<Rightarrow>
   (string \<Rightarrow> bool) \<Rightarrow> GitRepository list \<Rightarrow> GitRepository \<Rightarrow> error + GitRepository" where
  "clean create_slug is_graphql_safe find_spec objects self0 =
     (let self = autogenerate_slug create_slug objects self0 in
      case check_slug_unchanged self of
        Some e \<Rightarrow> Inl e
      | None \<Rightarrow>
          (case check_slug_on_create is_graphql_safe find_spec self of
             Some e \<Rightarrow> Inl e
           | None \<Rightarrow>
               (case check_overlap objects self of
                  Some e \<Rightarrow> Inl e
                | None \<Rightarrow> invalidate_head objects self)))"

subsection \<open>\<^verbatim>\<open>save\<close> and \<^verbatim>\<open>delete\<close>\<close>

text \<open>
  \<^verbatim>\<open>Model.save()\<close> writes the instance without running \<^verbatim>\<open>clean\<close>: an instance whose
  \<^verbatim>\<open>pk\<close> is \<^verbatim>\<open>None\<close> first gets the primary key the field default generates (the
  argument \<^verbatim>\<open>new_pk\<close>); the row with that key is updated, or inserted when there is
  none. \<^verbatim>\<open>Model.delete()\<close> removes the row with the instance's key. Errors of the
  database itself are outside the model.
\<close>

definition save :: "uuid \<Rightarrow> GitRepository list \<Rightarrow> GitRepository \<Rightarrow> GitRepository \<times> GitRepository list" where
  "save new_pk objects obj =
     (let saved = obj\<lparr>pk := (case pk obj of None \<Rightarrow> Some new_pk | Some i \<Rightarrow> Some i),
                      present_in_database := True\<rparr>
      in (saved,
          if list_ex (\<lambda>r. pk r = pk saved) objects
          then map (\<lambda>r. if pk r = pk saved then saved else r) objects
          else objects @ [saved]))"

definition delete :: "GitRepository list \<Rightarrow> GitRepository \<Rightarrow> GitRepository list" where
  "delete objects obj = filter (\<lambda>r. pk r \<noteq> pk obj) objects"

subsection \<open>\<^verbatim>\<open>GitRepository.clone\<close>\<close>

text \<open>
  The two Git helpers are outside the module and are parameters:
  \<^verbatim>\<open>get_repo\<close> is \<^verbatim>\<open>get_repo_from_url_to_path_and_from_branch\<close>, and
  \<^verbatim>\<open>checkout to_path from_url branch head\<close> is
  \<^verbatim>\<open>GitRepo(to_path, from_url).checkout(branch, head)\<close>, the body of the \<^verbatim>\<open>try\<close>.
  \<^verbatim>\<open>generated_uuid\<close> is the value of \<^verbatim>\<open>uuid.uuid4()\<close>. The result is what the call
  returns or raises, together with the table it leaves behind.
\<close>

definition shallow_copy :: "uuid \<Rightarrow> GitRepository \<Rightarrow> GitRepository" where
  "shallow_copy generated_uuid self =
     self\<lparr>pk := None,
          name := name self @ '' ('' @ generated_uuid @ '')'',
          slug := slug self @ ''_'' @ generated_uuid\<rparr>"

definition clone_checkout ::
  "(GitRepository \<Rightarrow> error + string \<times> string \<times> string) \<Rightarrow>
   (string \<Rightarrow> string \<Rightarrow> string \<Rightarrow> string option \<Rightarrow> error + string \<times> bool) \<Rightarrow>
   uuid \<Rightarrow> GitRepository list \<Rightarrow> GitRepository \<Rightarrow> string \<Rightarrow> string option \<Rightarrow>
   (error + GitRepository) \<times> GitRepository list" where
  "clone_checkout get_repo checkout new_pk objects cloned_git_repo branch_v head_v =
     (let (saved, objects') = save new_pk objects cloned_git_repo in
      case get_repo saved of
        Inl e \<Rightarrow> (Inl e, objects')
      | Inr (from_url, to_path, from_branch) \<Rightarrow>
          (case checkout to_path from_url branch_v head_v of
             Inl e \<Rightarrow> (Inl e, delete objects' saved)
           | Inr (head', changed) \<Rightarrow> (Inr saved, objects')))"

definition clone ::
  "(GitRepository \<Rightarrow> error + string \<times> string \<times> string) \<Rightarrow>
   (string \<Rightarrow> string \<Rightarrow> string \<Rightarrow> string option \<Rightarrow> error + string \<times> bool) \<Rightarrow>
   uuid \<Rightarrow> uuid \<Rightarrow> GitRepository list \<Rightarrow> GitRepository \<Rightarrow> string option \<Rightarrow> string option \<Rightarrow>
   (error + GitRepository) \<times> GitRepository list" where
  "clone get_repo checkout generated_uuid new_pk objects self branch_arg head_arg =
     (let cloned_git_repo = shallow_copy generated_uuid self in
      if branch_arg = None \<and> head_arg = None then
        clone_checkout get_repo checkout new_pk objects cloned_git_repo
          (branch cloned_git_repo) (Some (current_head cloned_git_repo))
      else
        (case branch_arg of
           Some b \<Rightarrow>
             clone_checkout get_repo checkout new_pk objects
               (case head_arg of
                  None \<Rightarrow> cloned_git_repo\<lparr>branch := b\<rparr>
                | Some h \<Rightarrow> cloned_git_repo\<lparr>branch := b, current_head := h\<rparr>)
               b head_arg
         | None \<Rightarrow>
             (let (saved, objects') = save new_pk objects cloned_git_repo in
              (Inl (ValueError ''You must provide a branch to checkout a specific commit hash.''),
               delete objects' saved))))"

subsection \<open>\<^verbatim>\<open>GitRepository.sync\<close>\<close>

text \<open>
  The job-execution subsystem is the list of the jobs enqueued so far; a \<^verbatim>\<open>JobResult\<close>
  is the handle of one job. The two enqueue functions that \<^verbatim>\<open>sync\<close> imports from
  \<^verbatim>\<open>nautobot.extras.datasources\<close> are outside the module and are parameters.
\<close>

datatype task =
    git_repository_diff_origin_and_local
  | pull_git_repository_and_refresh_data

record JobResult =
  task_name :: task
  task_repository :: "uuid option"
  task_user :: string

type_synonym enqueue = "GitRepository \<Rightarrow> string \<Rightarrow> JobResult list \<Rightarrow> JobResult \<times> JobResult list"

definition sync :: "enqueue \<Rightarrow> enqueue \<Rightarrow> GitRepository \<Rightarrow> string \<Rightarrow> bool \<Rightarrow> JobResult list \<Rightarrow> JobResult \<times> JobResult list" where
  "sync enqueue_diff enqueue_pull self user dry_run jobs =
     (if dry_run
      then enqueue_diff self user jobs
      else enqueue_pull self user jobs)"

text \<open>
  Modelled from the spec: \<^verbatim>\<open>enqueue_git_repository_diff_origin_and_local\<close> and
  \<^verbatim>\<open>enqueue_pull_git_repository_and_refresh_data\<close> of \<^verbatim>\<open>nautobot.extras.datasources\<close>
  are not among the sources. The spec has them hand one task of their kind, with the
  repository's identity as payload, to the job-execution subsystem and return its handle
  at once.
\<close>

definition enqueue_job :: "task \<Rightarrow> enqueue" where
  "enqueue_job t repository user jobs =
     (let job = \<lparr>task_name = t, task_repository = pk repository, task_user = user\<rparr>
      in (job, jobs @ [job]))"

definition enqueue_git_repository_diff_origin_and_local :: enqueue where
  "enqueue_git_repository_diff_origin_and_local repository user jobs =
     enqueue_job git_repository_diff_origin_and_local repository user jobs"

definition enqueue_pull_git_repository_and_refresh_data :: enqueue where
  "enqueue_pull_git_repository_and_refresh_data repository user jobs =
     enqueue_job pull_git_repository_and_refresh_data repository user jobs"

subsection \<open>The rules of the specification, in its words\<close>

text \<open>
  Two records share content when some content kind of the one is a content kind of the
  other. A record conflicts with the table when another row (one with a different
  identity) has its remote location and shares content with it. The invariant of the
  data model: no row of the table conflicts with it.
\<close>

definition shares_content :: "GitRepository \<Rightarrow> GitRepository \<Rightarrow> bool" where
  "shares_content a b = list_ex (\<lambda>k. k \<in> set (provided_contents b)) (provided_contents a)"

definition conflicts :: "GitRepository list \<Rightarrow> GitRepository \<Rightarrow> bool" where
  "conflicts objects self =
     list_ex (\<lambda>r. pk r \<noteq> pk self \<and> remote_url r = remote_url self \<and> shares_content self r) objects"

definition no_overlap_invariant :: "GitRepository list \<Rightarrow> bool" where
  "no_overlap_invariant objects = list_all (\<lambda>a. \<not> conflicts objects a) objects"

text \<open>
  What the spec asks of an enqueue function of kind \<^verbatim>\<open>t\<close>: a call adds one job to the
  end of the queue and returns it, and that job is of kind \<^verbatim>\<open>t\<close> and refers to the
  repository it was called with.
\<close>

definition enqueues_one :: "task \<Rightarrow> enqueue \<Rightarrow> bool" where
  "enqueues_one t enq =
     (\<forall>repository user jobs.
        snd (enq repository user jobs) = jobs @ [fst (enq repository user jobs)]
        \<and> task_name (fst (enq repository user jobs)) = t
        \<and> task_repository (fst (enq repository user jobs)) = pk repository)"

text \<open>
  The argument policy of \<^verbatim>\<open>clone\<close> on its own: the record that is saved and the branch
  and head that are handed to the checkout, or \<^verbatim>\<open>None\<close> where the arguments are
  refused. \<^verbatim>\<open>clone_unfold\<close> below shows that \<^verbatim>\<open>clone\<close> does exactly this.
\<close>

definition checkout_request ::
  "uuid \<Rightarrow> GitRepository \<Rightarrow> string option \<Rightarrow> string option \<Rightarrow> (GitRepository \<times> string \<times> string option) option" where
  "checkout_request generated_uuid self branch_arg head_arg =
     (let c = shallow_copy generated_uuid self in
      if branch_arg = None \<and> head_arg = None then Some (c, branch c, Some (current_head c))
      else
        (case branch_arg of
           Some b \<Rightarrow>
             Some ((case head_arg of
                      None \<Rightarrow> c\<lparr>branch := b\<rparr>
                    | Some h \<Rightarrow> c\<lparr>branch := b, current_head := h\<rparr>), b, head_arg)
         | None \<Rightarrow> None))"

subsection \<open>Example data\<close>

text \<open>
  Two persisted repositories on one remote that supply different content kinds, a Python
  environment with three installed modules, and Git helpers that succeed or fail.
\<close>

definition repo_configs :: GitRepository where
  "repo_configs =
     \<lparr>pk = Some ''id-1'', name = ''configs'', slug = ''configs'',
      remote_url = ''https://example.com/r.git'', branch = ''main'', current_head = ''aaa111'',
      secrets_group = None, provided_contents = [''config-contexts''],
      initial_slug = ''configs'', present_in_database = True\<rparr>"

definition repo_jobs :: GitRepository where
  "repo_jobs =
     \<lparr>pk = Some ''id-2'', name = ''jobs'', slug = ''jobs'',
      remote_url = ''https://example.com/r.git'', branch = ''main'', current_head = '''',
      secrets_group = None, provided_contents = [''jobs''],
      initial_slug = ''jobs'', present_in_database = True\<rparr>"

definition installed_module :: "string \<Rightarrow> bool" where
  "installed_module s = (s \<in> set [''os'', ''sys'', ''json''])"

definition get_repo_ok :: "GitRepository \<Rightarrow> error + string \<times> string \<times> string" where
  "get_repo_ok r = Inr (remote_url r, ''/opt/nautobot/git/'' @ slug r, branch r)"

definition checkout_tip :: "string \<Rightarrow> string \<Rightarrow> string \<Rightarrow> string option \<Rightarrow> error + string \<times> bool" where
  "checkout_tip to_path from_url branch_v head_v =
     Inr (case head_v of
            None \<Rightarrow> ''bbb222''
          | Some h \<Rightarrow> (if h = '''' then ''bbb222'' else h), True)"

definition checkout_fails :: "string \<Rightarrow> string \<Rightarrow> string \<Rightarrow> string option \<Rightarrow> error + string \<times> bool" where
  "checkout_fails to_path from_url branch_v head_v = Inl (GitError ''remote ref not found'')"

section \<open>Properties\<close>

lemma filter_q_build_q_Some:
  "filter_q (build_q items (Some p)) rows =
   filter (\<lambda>r. p r \<or> (\<exists>i\<in>set items. i \<in> set (provided_contents r))) rows"
proof (induction items arbitrary: p)
  case Nil
  show ?case by (simp add: filter_q_def)
next
  case (Cons item items)
  show ?case
    by (simp add: Cons.IH provided_contents__contains_def)
qed

lemma filter_q_build_q_None:
  "items \<noteq> [] \<Longrightarrow>
   filter_q (build_q items None) rows =
   filter (\<lambda>r. \<exists>i\<in>set items. i \<in> set (provided_contents r)) rows"
  by (cases items) (auto simp: filter_q_build_q_Some provided_contents__contains_def intro: filter_cong)

lemma set_duplicate_repos:
  "provided_contents self \<noteq> [] \<Longrightarrow>
   set (duplicate_repos objects self) =
   {r \<in> set objects. pk r \<noteq> pk self \<and> remote_url r = remote_url self \<and> shares_content self r}"
  by (auto simp: duplicate_repos_def filter_q_build_q_None exclude_id_def filter_remote_url_def
      shares_content_def list_ex_iff)

lemma exists_duplicate_repos:
  "provided_contents self \<noteq> [] \<Longrightarrow> exists_rows (duplicate_repos objects self) = conflicts objects self"
proof -
  assume a: "provided_contents self \<noteq> []"
  have "exists_rows (duplicate_repos objects self) = (set (duplicate_repos objects self) \<noteq> {})"
    by (simp add: exists_rows_def)
  also have "\<dots> = conflicts objects self"
    unfolding set_duplicate_repos [OF a] by (auto simp: conflicts_def list_ex_iff)
  finally show ?thesis .
qed

lemma check_overlap_conflicts:
  "check_overlap objects self =
     (if provided_contents self \<noteq> [] \<and> conflicts objects self
      then Some (ValidationError (ContentsOverlap (remote_url self))) else None)"
  by (simp add: check_overlap_def exists_duplicate_repos)

lemma not_conflicts_empty: "provided_contents self = [] \<Longrightarrow> \<not> conflicts objects self"
  by (simp add: conflicts_def shares_content_def list_ex_iff)

lemma autogenerate_slug_fields [simp]:
  "pk (autogenerate_slug cs objects self) = pk self"
  "remote_url (autogenerate_slug cs objects self) = remote_url self"
  "branch (autogenerate_slug cs objects self) = branch self"
  "current_head (autogenerate_slug cs objects self) = current_head self"
  "provided_contents (autogenerate_slug cs objects self) = provided_contents self"
  "initial_slug (autogenerate_slug cs objects self) = initial_slug self"
  "present_in_database (autogenerate_slug cs objects self) = present_in_database self"
  by (simp_all add: autogenerate_slug_def)

lemma slug_autogenerate_slug:
  "slug (autogenerate_slug cs objects self) =
     (if slug self = '''' then cs objects self (\<not> present_in_database self) else slug self)"
  by (simp add: autogenerate_slug_def)

lemma conflicts_autogenerate_slug [simp]:
  "conflicts objects (autogenerate_slug cs objects' self) = conflicts objects self"
  by (simp add: conflicts_def shares_content_def)

lemma invalidate_head_current_head:
  assumes "invalidate_head objects self = Inr self'" "present_in_database self"
    "get_id (pk self) objects = Inr past"
  shows "current_head self' =
     (if remote_url self \<noteq> remote_url past \<or> branch self \<noteq> branch past then '''' else current_head self)"
  using assms by (auto simp: invalidate_head_def split: if_splits)

lemma clean_Inr:
  "clean cs gs fs objects self = Inr self' \<Longrightarrow>
   invalidate_head objects (autogenerate_slug cs objects self) = Inr self'"
  by (simp add: clean_def Let_def split: option.splits)

text \<open>
  C1. When \<^verbatim>\<open>clean\<close> accepts an update of a persisted record, the record it hands on
  for the write has an empty \<^verbatim>\<open>current_head\<close> if its \<^verbatim>\<open>remote_url\<close> or \<^verbatim>\<open>branch\<close>
  differs from the persisted row, and the \<^verbatim>\<open>current_head\<close> it came with otherwise.
\<close>

theorem clean_invalidates_current_head:
  assumes "clean create_slug is_graphql_safe find_spec objects self = Inr self'"
    and "present_in_database self"
    and "get_id (pk self) objects = Inr past"
  shows "current_head self' =
     (if remote_url self \<noteq> remote_url past \<or> branch self \<noteq> branch past
      then '''' else current_head self)"
  using invalidate_head_current_head [OF clean_Inr [OF assms(1)], of past] assms(2,3) by simp

theorem clean_invalidates_current_head_witness:
  "clean spec_create_slug graphql_safe (\<lambda>s. False) [repo_configs] (repo_configs\<lparr>branch := ''dev''\<rparr>)
     = Inr (repo_configs\<lparr>branch := ''dev'', current_head := ''''\<rparr>)
   \<and> present_in_database (repo_configs\<lparr>branch := ''dev''\<rparr>)
   \<and> get_id (pk (repo_configs\<lparr>branch := ''dev''\<rparr>)) [repo_configs] = Inr repo_configs
   \<and> current_head (repo_configs\<lparr>branch := ''dev'', current_head := ''''\<rparr>) = ''''"
proof -
  have h1: "clean spec_create_slug graphql_safe (\<lambda>s. False) [repo_configs] (repo_configs\<lparr>branch := ''dev''\<rparr>)
     = Inr (repo_configs\<lparr>branch := ''dev'', current_head := ''''\<rparr>)"
    by (simp add: clean_def autogenerate_slug_def check_slug_unchanged_def check_slug_on_create_def
        check_overlap_def duplicate_repos_def filter_q_def exclude_id_def filter_remote_url_def
        exists_rows_def invalidate_head_def get_id_def repo_configs_def)
  have h2: "present_in_database (repo_configs\<lparr>branch := ''dev''\<rparr>)"
    by (simp add: repo_configs_def)
  have h3: "get_id (pk (repo_configs\<lparr>branch := ''dev''\<rparr>)) [repo_configs] = Inr repo_configs"
    by (simp add: get_id_def repo_configs_def)
  show ?thesis
    using h1 h2 h3 clean_invalidates_current_head [OF h1 h2 h3] by simp
qed

lemma clean_Inl_cases:
  "clean cs gs fs objects self = Inl e \<longleftrightarrow>
     (let s = autogenerate_slug cs objects self in
      check_slug_unchanged s = Some e
      \<or> (check_slug_unchanged s = None \<and> check_slug_on_create gs fs s = Some e)
      \<or> (check_slug_unchanged s = None \<and> check_slug_on_create gs fs s = None
           \<and> check_overlap objects s = Some e)
      \<or> (check_slug_unchanged s = None \<and> check_slug_on_create gs fs s = None
           \<and> check_overlap objects s = None \<and> invalidate_head objects s = Inl e))"
  by (auto simp: clean_def Let_def split: option.splits)

lemma check_slug_unchanged_not_overlap:
  "check_slug_unchanged s \<noteq> Some (ValidationError (ContentsOverlap u))"
  by (simp add: check_slug_unchanged_def)

lemma check_slug_on_create_not_overlap:
  "check_slug_on_create gs fs s \<noteq> Some (ValidationError (ContentsOverlap u))"
  by (simp add: check_slug_on_create_def)

lemma get_id_not_validation: "get_id i rows \<noteq> Inl (ValidationError v)"
  by (simp add: get_id_def split: list.splits)

lemma invalidate_head_not_validation: "invalidate_head objects s \<noteq> Inl (ValidationError v)"
  using get_id_not_validation [of "pk s" objects v]
  by (auto simp: invalidate_head_def split: sum.splits)

lemma clean_overlap_iff_check:
  "clean cs gs fs objects self = Inl (ValidationError (ContentsOverlap u)) \<longleftrightarrow>
     check_slug_unchanged (autogenerate_slug cs objects self) = None
     \<and> check_slug_on_create gs fs (autogenerate_slug cs objects self) = None
     \<and> check_overlap objects (autogenerate_slug cs objects self) = Some (ValidationError (ContentsOverlap u))"
  unfolding clean_Inl_cases Let_def
  using check_slug_unchanged_not_overlap check_slug_on_create_not_overlap invalidate_head_not_validation
  by auto

text \<open>
  C2, as the code has it. The overlap check is the third check of \<^verbatim>\<open>clean\<close>:
  validation fails with the overlap error exactly when the slug checks before it raise
  nothing, \<^verbatim>\<open>provided_contents\<close> is not empty, and another row of the table has the
  candidate's \<^verbatim>\<open>remote_url\<close> and shares a content kind with it; the error names that
  \<^verbatim>\<open>remote_url\<close>. With empty \<^verbatim>\<open>provided_contents\<close> the right-hand side is false, so
  the overlap error is never raised.
\<close>

theorem clean_overlap_error_iff:
  "clean create_slug is_graphql_safe find_spec objects self = Inl (ValidationError (ContentsOverlap u)) \<longleftrightarrow>
     check_slug_unchanged (autogenerate_slug create_slug objects self) = None
     \<and> check_slug_on_create is_graphql_safe find_spec (autogenerate_slug create_slug objects self) = None
     \<and> provided_contents self \<noteq> []
     \<and> conflicts objects self
     \<and> u = remote_url self"
  unfolding clean_overlap_iff_check check_overlap_conflicts by auto

theorem clean_overlap_error_iff_witness:
  "clean spec_create_slug graphql_safe installed_module [repo_configs, repo_jobs]
     (repo_configs\<lparr>provided_contents := [''config-contexts'', ''jobs'']\<rparr>)
   = Inl (ValidationError (ContentsOverlap ''https://example.com/r.git''))"
proof -
  let ?c = "repo_configs\<lparr>provided_contents := [''config-contexts'', ''jobs'']\<rparr>"
  have h1: "check_slug_unchanged (autogenerate_slug spec_create_slug [repo_configs, repo_jobs] ?c) = None"
    by (simp add: check_slug_unchanged_def autogenerate_slug_def repo_configs_def)
  have h2: "check_slug_on_create graphql_safe installed_module
              (autogenerate_slug spec_create_slug [repo_configs, repo_jobs] ?c) = None"
    by (simp add: check_slug_on_create_def autogenerate_slug_def repo_configs_def)
  have h3: "provided_contents ?c \<noteq> []" by simp
  have h4: "conflicts [repo_configs, repo_jobs] ?c"
    by (simp add: conflicts_def shares_content_def repo_configs_def repo_jobs_def)
  have h5: "''https://example.com/r.git'' = remote_url ?c"
    by (simp add: repo_configs_def)
  show ?thesis
    using clean_overlap_error_iff [of spec_create_slug graphql_safe installed_module
        "[repo_configs, repo_jobs]" ?c "''https://example.com/r.git''"] h1 h2 h3 h4 h5
    by blast
qed

text \<open>
  The claim as worded fails where an earlier check raises first: an update that renames
  the slug and adds an overlapping content kind is refused for the slug, and the overlap
  error is not the outcome although a conflicting row exists.
\<close>

theorem clean_overlap_error_counterexample:
  "provided_contents (repo_configs\<lparr>slug := ''renamed'', provided_contents := [''config-contexts'', ''jobs'']\<rparr>) \<noteq> []
   \<and> conflicts [repo_configs, repo_jobs]
        (repo_configs\<lparr>slug := ''renamed'', provided_contents := [''config-contexts'', ''jobs'']\<rparr>)
   \<and> clean spec_create_slug graphql_safe installed_module [repo_configs, repo_jobs]
        (repo_configs\<lparr>slug := ''renamed'', provided_contents := [''config-contexts'', ''jobs'']\<rparr>)
      = Inl (ValidationError (SlugChanged ''configs'' ''renamed''))"
  by (simp add: clean_def autogenerate_slug_def check_slug_unchanged_def conflicts_def
      shares_content_def repo_configs_def repo_jobs_def)

lemma check_slug_on_create_not_slug_changed:
  "check_slug_on_create gs fs s \<noteq> Some (ValidationError (SlugChanged a b))"
  by (simp add: check_slug_on_create_def)

lemma check_overlap_not_slug_changed:
  "check_overlap objects s \<noteq> Some (ValidationError (SlugChanged a b))"
  by (simp add: check_overlap_def)

lemma clean_slug_changed_iff_check:
  "clean cs gs fs objects self = Inl (ValidationError (SlugChanged a b)) \<longleftrightarrow>
     check_slug_unchanged (autogenerate_slug cs objects self) = Some (ValidationError (SlugChanged a b))"
  unfolding clean_Inl_cases Let_def
  using check_slug_on_create_not_slug_changed check_overlap_not_slug_changed
    invalidate_head_not_validation
  by auto

text \<open>
  C3, as the code has it. For a persisted record, \<^verbatim>\<open>clean\<close> compares the slug stored by
  \<^verbatim>\<open>__init__\<close> with the slug of the update after the autogeneration step: the slug of
  the update itself when it is not blank, the slug \<^verbatim>\<open>create_slug\<close> generates when it is
  blank. Validation fails with the slug error exactly when these two differ, and the
  error carries both.
\<close>

theorem clean_slug_changed_iff:
  assumes "present_in_database self"
  shows "clean create_slug is_graphql_safe find_spec objects self = Inl (ValidationError (SlugChanged a b)) \<longleftrightarrow>
     a = initial_slug self
     \<and> b = (if slug self = '''' then create_slug objects self False else slug self)
     \<and> b \<noteq> initial_slug self"
  unfolding clean_slug_changed_iff_check
  using assms by (auto simp: check_slug_unchanged_def slug_autogenerate_slug)

theorem clean_slug_changed_iff_witness:
  "present_in_database (repo_configs\<lparr>slug := ''renamed''\<rparr>)
   \<and> clean spec_create_slug graphql_safe installed_module [repo_configs, repo_jobs]
        (repo_configs\<lparr>slug := ''renamed''\<rparr>)
      = Inl (ValidationError (SlugChanged ''configs'' ''renamed''))"
proof -
  have h: "present_in_database (repo_configs\<lparr>slug := ''renamed''\<rparr>)"
    by (simp add: repo_configs_def)
  show ?thesis
    using h clean_slug_changed_iff [OF h, of spec_create_slug graphql_safe installed_module
        "[repo_configs, repo_jobs]" "''configs''" "''renamed''"]
    by (simp add: repo_configs_def)
qed

text \<open>
  The claim as worded fails for a blank slug: the update of \<^verbatim>\<open>repo_configs\<close> that
  blanks the slug differs from the stored slug, and validation accepts it, because the
  slug generated from the unchanged name is the stored one.
\<close>

theorem clean_slug_changed_counterexample:
  "present_in_database (repo_configs\<lparr>slug := ''''\<rparr>)
   \<and> slug (repo_configs\<lparr>slug := ''''\<rparr>) \<noteq> initial_slug (repo_configs\<lparr>slug := ''''\<rparr>)
   \<and> clean spec_create_slug graphql_safe installed_module [repo_configs, repo_jobs]
        (repo_configs\<lparr>slug := ''''\<rparr>)
      = Inr repo_configs"
  by (simp add: clean_def autogenerate_slug_def check_slug_unchanged_def check_slug_on_create_def
      check_overlap_def duplicate_repos_def filter_q_def exclude_id_def filter_remote_url_def
      exists_rows_def invalidate_head_def get_id_def provided_contents__contains_def
      spec_create_slug_def slug_char_def repo_configs_def repo_jobs_def)

lemma duplicate_repos_excludes_self:
  "list_all (\<lambda>r. pk r \<noteq> pk self) (duplicate_repos objects self)"
  by (auto simp: duplicate_repos_def filter_q_def exclude_id_def list_all_iff split: option.splits)

lemma conflicts_cong:
  "pk r = pk self \<Longrightarrow> remote_url r = remote_url self \<Longrightarrow>
   provided_contents r = provided_contents self \<Longrightarrow> conflicts objects r = conflicts objects self"
  by (simp add: conflicts_def shares_content_def)

text \<open>
  C10. The duplicate query never returns a row with the record's own identity. So when
  no row of the table conflicts with the table and the record is one of its rows (same
  identity, \<^verbatim>\<open>remote_url\<close> and \<^verbatim>\<open>provided_contents\<close>), \<^verbatim>\<open>clean\<close> does not fail with the
  overlap error.
\<close>

theorem clean_no_self_conflict:
  assumes "no_overlap_invariant objects"
    and "list_ex (\<lambda>r. pk r = pk self \<and> remote_url r = remote_url self
                      \<and> provided_contents r = provided_contents self) objects"
  shows "list_all (\<lambda>r. pk r \<noteq> pk self) (duplicate_repos objects self)
     \<and> clean create_slug is_graphql_safe find_spec objects self \<noteq> Inl (ValidationError (ContentsOverlap u))"
proof -
  from assms(2) obtain r where r: "r \<in> set objects" "pk r = pk self"
      "remote_url r = remote_url self" "provided_contents r = provided_contents self"
    by (auto simp: list_ex_iff)
  from assms(1) r(1) have "\<not> conflicts objects r"
    by (simp add: no_overlap_invariant_def list_all_iff)
  then have "\<not> conflicts objects self"
    using conflicts_cong [OF r(2,3,4)] by simp
  then have "clean create_slug is_graphql_safe find_spec objects self \<noteq> Inl (ValidationError (ContentsOverlap u))"
    unfolding clean_overlap_iff_check check_overlap_conflicts by simp
  then show ?thesis
    using duplicate_repos_excludes_self by simp
qed

theorem clean_no_self_conflict_witness:
  "no_overlap_invariant [repo_configs, repo_jobs]
   \<and> clean spec_create_slug graphql_safe installed_module [repo_configs, repo_jobs] repo_configs
       = Inr repo_configs
   \<and> clean spec_create_slug graphql_safe installed_module [repo_configs, repo_jobs] repo_configs
       \<noteq> Inl (ValidationError (ContentsOverlap ''https://example.com/r.git''))"
proof -
  have h1: "no_overlap_invariant [repo_configs, repo_jobs]"
    by (simp add: no_overlap_invariant_def conflicts_def shares_content_def repo_configs_def repo_jobs_def)
  have h2: "list_ex (\<lambda>r. pk r = pk repo_configs \<and> remote_url r = remote_url repo_configs
                      \<and> provided_contents r = provided_contents repo_configs) [repo_configs, repo_jobs]"
    by simp
  have h3: "clean spec_create_slug graphql_safe installed_module [repo_configs, repo_jobs] repo_configs
       = Inr repo_configs"
    by (simp add: clean_def autogenerate_slug_def check_slug_unchanged_def check_slug_on_create_def
      check_overlap_def duplicate_repos_def filter_q_def exclude_id_def filter_remote_url_def
      exists_rows_def invalidate_head_def get_id_def provided_contents__contains_def
      repo_configs_def repo_jobs_def)
  show ?thesis
    using h1 h3 clean_no_self_conflict [OF h1 h2, of spec_create_slug graphql_safe installed_module
        "''https://example.com/r.git''"]
    by simp
qed

lemma clone_unfold:
  "clone get_repo checkout generated_uuid new_pk objects self branch_arg head_arg =
     (case checkout_request generated_uuid self branch_arg head_arg of
        Some (c, b, h) \<Rightarrow> clone_checkout get_repo checkout new_pk objects c b h
      | None \<Rightarrow>
          (Inl (ValueError ''You must provide a branch to checkout a specific commit hash.''),
           delete (snd (save new_pk objects (shallow_copy generated_uuid self)))
             (fst (save new_pk objects (shallow_copy generated_uuid self)))))"
  by (simp add: clone_def checkout_request_def Let_def split: option.splits prod.splits)

lemma checkout_request_pk:
  "checkout_request generated_uuid self branch_arg head_arg = Some (c, b, h) \<Longrightarrow> pk c = None"
  by (auto simp: checkout_request_def shallow_copy_def Let_def split: if_splits option.splits)

lemma checkout_request_fields:
  assumes "checkout_request generated_uuid self branch_arg head_arg = Some (c, b, h)"
  shows "remote_url c = remote_url self" "provided_contents c = provided_contents self"
    "name c = name self @ '' ('' @ generated_uuid @ '')''"
    "slug c = slug self @ ''_'' @ generated_uuid"
    "branch c = b"
    "current_head c = (case (branch_arg, head_arg) of (Some x, Some y) \<Rightarrow> y | _ \<Rightarrow> current_head self)"
  using assms
  by (auto simp: checkout_request_def shallow_copy_def Let_def split: if_splits option.splits)

lemma fst_save:
  "fst (save new_pk objects c) =
     c\<lparr>pk := (case pk c of None \<Rightarrow> Some new_pk | Some i \<Rightarrow> Some i), present_in_database := True\<rparr>"
  by (simp add: save_def Let_def)

lemma pk_fst_save: "pk c = None \<Longrightarrow> pk (fst (save new_pk objects c)) = Some new_pk"
  by (simp add: fst_save)

lemma snd_save_fresh:
  "pk c = None \<Longrightarrow> \<not> list_ex (\<lambda>r. pk r = Some new_pk) objects \<Longrightarrow>
   snd (save new_pk objects c) = objects @ [fst (save new_pk objects c)]"
  by (simp add: save_def Let_def)

lemma delete_removes: "\<not> list_ex (\<lambda>r. pk r = pk obj) (delete objects obj)"
  by (simp add: delete_def list_ex_iff)

lemma delete_save_fresh:
  assumes "pk c = None" "\<not> list_ex (\<lambda>r. pk r = Some new_pk) objects"
  shows "delete (snd (save new_pk objects c)) (fst (save new_pk objects c)) = objects"
proof -
  have "filter (\<lambda>r. pk r \<noteq> Some new_pk) objects = objects"
    using assms(2) by (simp add: list_ex_iff filter_id_conv)
  then show ?thesis
    using assms by (simp add: snd_save_fresh delete_def pk_fst_save)
qed

lemma get_id_absent: "\<not> list_ex (\<lambda>r. pk r = i) rows \<Longrightarrow> get_id i rows = Inl DoesNotExist"
proof -
  assume "\<not> list_ex (\<lambda>r. pk r = i) rows"
  then have "filter (\<lambda>r. pk r = i) rows = []"
    by (simp add: list_ex_iff filter_empty_conv)
  then show ?thesis by (simp add: get_id_def)
qed

lemma clone_checkout_Inl:
  assumes "get_repo (fst (save new_pk objects c)) = Inr (from_url, to_path, from_branch)"
    and "checkout to_path from_url b h = Inl e"
  shows "clone_checkout get_repo checkout new_pk objects c b h =
     (Inl e, delete (snd (save new_pk objects c)) (fst (save new_pk objects c)))"
  using assms by (cases "save new_pk objects c") (simp add: clone_checkout_def)

lemma clone_checkout_Inr:
  assumes "get_repo (fst (save new_pk objects c)) = Inr (from_url, to_path, from_branch)"
    and "checkout to_path from_url b h = Inr (head', changed)"
  shows "clone_checkout get_repo checkout new_pk objects c b h =
     (Inr (fst (save new_pk objects c)), snd (save new_pk objects c))"
  using assms by (cases "save new_pk objects c") (simp add: clone_checkout_def)

lemma clone_checkout_success:
  assumes "fst (clone_checkout get_repo checkout new_pk objects c b h) = Inr r"
  shows "r = fst (save new_pk objects c)
     \<and> snd (clone_checkout get_repo checkout new_pk objects c b h) = snd (save new_pk objects c)"
  using assms by (auto simp: clone_checkout_def split: prod.splits sum.splits)

lemma clone_success:
  assumes "fst (clone get_repo checkout generated_uuid new_pk objects self branch_arg head_arg) = Inr r"
  shows "\<exists>c b h. checkout_request generated_uuid self branch_arg head_arg = Some (c, b, h)
     \<and> r = fst (save new_pk objects c)
     \<and> snd (clone get_repo checkout generated_uuid new_pk objects self branch_arg head_arg)
         = snd (save new_pk objects c)"
proof (cases "checkout_request generated_uuid self branch_arg head_arg")
  case None
  with assms show ?thesis by (simp add: clone_unfold)
next
  case (Some t)
  obtain c b h where t: "t = (c, b, h)" by (cases t)
  from assms Some t
  have "fst (clone_checkout get_repo checkout new_pk objects c b h) = Inr r"
    by (simp add: clone_unfold)
  from clone_checkout_success [OF this] Some t show ?thesis
    by (simp add: clone_unfold)
qed

text \<open>
  C4. When the checkout inside \<^verbatim>\<open>clone\<close> fails with \<^verbatim>\<open>e\<close>, the call raises \<^verbatim>\<open>e\<close> and
  the table it leaves has no row with the key of the record it had saved; when that key
  was new to the table, the table is the one before the call.
\<close>

theorem clone_checkout_failure:
  assumes "checkout_request generated_uuid self branch_arg head_arg = Some (c, b, h)"
    and "get_repo (fst (save new_pk objects c)) = Inr (from_url, to_path, from_branch)"
    and "checkout to_path from_url b h = Inl e"
  shows "fst (clone get_repo checkout generated_uuid new_pk objects self branch_arg head_arg) = Inl e
     \<and> \<not> list_ex (\<lambda>r. pk r = Some new_pk)
           (snd (clone get_repo checkout generated_uuid new_pk objects self branch_arg head_arg))
     \<and> get_id (Some new_pk)
           (snd (clone get_repo checkout generated_uuid new_pk objects self branch_arg head_arg))
         = Inl DoesNotExist
     \<and> (\<not> list_ex (\<lambda>r. pk r = Some new_pk) objects \<longrightarrow>
          snd (clone get_repo checkout generated_uuid new_pk objects self branch_arg head_arg) = objects)"
proof -
  let ?saved = "fst (save new_pk objects c)"
  let ?table = "delete (snd (save new_pk objects c)) ?saved"
  have pkc: "pk c = None" by (rule checkout_request_pk [OF assms(1)])
  have "clone_checkout get_repo checkout new_pk objects c b h = (Inl e, ?table)"
    using assms(2,3) by (rule clone_checkout_Inl)
  then have res: "clone get_repo checkout generated_uuid new_pk objects self branch_arg head_arg = (Inl e, ?table)"
    by (simp add: clone_unfold assms(1))
  have gone: "\<not> list_ex (\<lambda>r. pk r = Some new_pk) ?table"
    using delete_removes [of ?saved "snd (save new_pk objects c)"] by (simp add: pk_fst_save [OF pkc])
  show ?thesis
    using res gone get_id_absent [OF gone] delete_save_fresh [OF pkc] by simp
qed

theorem clone_checkout_failure_witness:
  "clone get_repo_ok checkout_fails ''u-9'' ''id-3'' [repo_configs, repo_jobs] repo_configs (Some ''dev'') None
     = (Inl (GitError ''remote ref not found''), [repo_configs, repo_jobs])"
proof -
  let ?c = "(shallow_copy ''u-9'' repo_configs)\<lparr>branch := ''dev''\<rparr>"
  have h1: "checkout_request ''u-9'' repo_configs (Some ''dev'') None = Some (?c, ''dev'', None)"
    by (simp add: checkout_request_def)
  have h2: "get_repo_ok (fst (save ''id-3'' [repo_configs, repo_jobs] ?c))
      = Inr (remote_url repo_configs, ''/opt/nautobot/git/configs_u-9'', ''dev'')"
    by (simp add: get_repo_ok_def fst_save shallow_copy_def repo_configs_def)
  have h3: "checkout_fails ''/opt/nautobot/git/configs_u-9'' (remote_url repo_configs) ''dev'' None
      = Inl (GitError ''remote ref not found'')"
    by (simp add: checkout_fails_def)
  have h4: "\<not> list_ex (\<lambda>r. pk r = Some ''id-3'') [repo_configs, repo_jobs]"
    by (simp add: repo_configs_def repo_jobs_def)
  show ?thesis
    using clone_checkout_failure [where get_repo = get_repo_ok and checkout = checkout_fails, OF h1 h2 h3] h4
    by (simp add: prod_eq_iff)
qed

text \<open>
  C5. \<^verbatim>\<open>clone\<close> with a head and no branch raises the \<^verbatim>\<open>ValueError\<close>; the record it
  saves first is deleted again, so with a key that is new to the table the table after
  the call is the table before it.
\<close>

theorem clone_head_without_branch:
  assumes "\<not> list_ex (\<lambda>r. pk r = Some new_pk) objects"
  shows "clone get_repo checkout generated_uuid new_pk objects self None (Some h) =
     (Inl (ValueError ''You must provide a branch to checkout a specific commit hash.''), objects)"
proof -
  have "checkout_request generated_uuid self None (Some h) = None"
    by (simp add: checkout_request_def)
  moreover have "pk (shallow_copy generated_uuid self) = None"
    by (simp add: shallow_copy_def)
  ultimately show ?thesis
    using delete_save_fresh [OF _ assms, of "shallow_copy generated_uuid self"]
    by (simp add: clone_unfold)
qed

theorem clone_head_without_branch_witness:
  "\<not> list_ex (\<lambda>r. pk r = Some ''id-3'') [repo_configs, repo_jobs]
   \<and> clone get_repo_ok checkout_tip ''u-9'' ''id-3'' [repo_configs, repo_jobs] repo_configs None (Some ''abc123'')
     = (Inl (ValueError ''You must provide a branch to checkout a specific commit hash.''),
        [repo_configs, repo_jobs])"
proof -
  have h: "\<not> list_ex (\<lambda>r. pk r = Some ''id-3'') [repo_configs, repo_jobs]"
    by (simp add: repo_configs_def repo_jobs_def)
  show ?thesis
    using h clone_head_without_branch [OF h, of get_repo_ok checkout_tip "''u-9''" repo_configs "''abc123''"]
    by simp
qed

text \<open>
  C6. \<^verbatim>\<open>clone\<close> with neither branch nor head, when the Git helpers succeed, returns a
  record with the source's \<^verbatim>\<open>branch\<close> and \<^verbatim>\<open>current_head\<close>, whose name and slug are
  the source's extended by the generated identifier, and so differ from them.
\<close>

theorem clone_defaults:
  assumes "get_repo (fst (save new_pk objects (shallow_copy generated_uuid self)))
             = Inr (from_url, to_path, from_branch)"
    and "checkout to_path from_url (branch self) (Some (current_head self)) = Inr (head', changed)"
  shows "\<exists>r. fst (clone get_repo checkout generated_uuid new_pk objects self None None) = Inr r
     \<and> branch r = branch self \<and> current_head r = current_head self
     \<and> name r = name self @ '' ('' @ generated_uuid @ '')''
     \<and> slug r = slug self @ ''_'' @ generated_uuid
     \<and> name r \<noteq> name self \<and> slug r \<noteq> slug self"
proof -
  let ?c = "shallow_copy generated_uuid self"
  have req: "checkout_request generated_uuid self None None = Some (?c, branch self, Some (current_head self))"
    by (simp add: checkout_request_def shallow_copy_def)
  have "clone_checkout get_repo checkout new_pk objects ?c (branch self) (Some (current_head self))
      = (Inr (fst (save new_pk objects ?c)), snd (save new_pk objects ?c))"
    using assms by (rule clone_checkout_Inr)
  then have res: "fst (clone get_repo checkout generated_uuid new_pk objects self None None)
      = Inr (fst (save new_pk objects ?c))"
    by (simp add: clone_unfold req)
  have "length (name (fst (save new_pk objects ?c))) \<noteq> length (name self)"
    and "length (slug (fst (save new_pk objects ?c))) \<noteq> length (slug self)"
    by (simp_all add: fst_save shallow_copy_def)
  then have "name (fst (save new_pk objects ?c)) \<noteq> name self"
    and "slug (fst (save new_pk objects ?c)) \<noteq> slug self"
    by auto
  then show ?thesis
    using res by (simp add: fst_save shallow_copy_def)
qed

theorem clone_defaults_witness:
  "fst (clone get_repo_ok checkout_tip ''u-9'' ''id-3'' [repo_configs, repo_jobs] repo_configs None None)
     = Inr (repo_configs\<lparr>pk := Some ''id-3'', name := ''configs (u-9)'', slug := ''configs_u-9''\<rparr>)"
proof -
  have h1: "get_repo_ok (fst (save ''id-3'' [repo_configs, repo_jobs] (shallow_copy ''u-9'' repo_configs)))
      = Inr (remote_url repo_configs, ''/opt/nautobot/git/configs_u-9'', ''main'')"
    by (simp add: get_repo_ok_def fst_save shallow_copy_def repo_configs_def)
  have h2: "checkout_tip ''/opt/nautobot/git/configs_u-9'' (remote_url repo_configs) (branch repo_configs)
      (Some (current_head repo_configs)) = Inr (''aaa111'', True)"
    by (simp add: checkout_tip_def repo_configs_def)
  from clone_defaults [where get_repo = get_repo_ok and checkout = checkout_tip, OF h1 h2]
  obtain r where r: "fst (clone get_repo_ok checkout_tip ''u-9'' ''id-3'' [repo_configs, repo_jobs]
        repo_configs None None) = Inr r"
    by blast
  have "fst (clone get_repo_ok checkout_tip ''u-9'' ''id-3'' [repo_configs, repo_jobs] repo_configs None None)
      = Inr (repo_configs\<lparr>pk := Some ''id-3'', name := ''configs (u-9)'', slug := ''configs_u-9''\<rparr>)"
    by (simp add: clone_def clone_checkout_def save_def Let_def shallow_copy_def get_repo_ok_def
        checkout_tip_def repo_configs_def repo_jobs_def)
  with r show ?thesis by simp
qed

text \<open>
  What a successful \<^verbatim>\<open>clone\<close> returns is the record as it was saved before the checkout:
  its \<^verbatim>\<open>current_head\<close> is the \<^verbatim>\<open>head\<close> argument when a branch and a head are given
  and the source's \<^verbatim>\<open>current_head\<close> otherwise, whatever commit the checkout reports.
  The record is a row of the table the call leaves.
\<close>

lemma clone_current_head:
  assumes "fst (clone get_repo checkout generated_uuid new_pk objects self branch_arg head_arg) = Inr r"
  shows "current_head r =
     (case (branch_arg, head_arg) of (Some b, Some h) \<Rightarrow> h | _ \<Rightarrow> current_head self)"
    and "r \<in> set (snd (clone get_repo checkout generated_uuid new_pk objects self branch_arg head_arg))"
proof -
  from clone_success [OF assms] obtain c b h where
    req: "checkout_request generated_uuid self branch_arg head_arg = Some (c, b, h)"
    and r: "r = fst (save new_pk objects c)"
    and t: "snd (clone get_repo checkout generated_uuid new_pk objects self branch_arg head_arg)
         = snd (save new_pk objects c)"
    by blast
  show "current_head r =
     (case (branch_arg, head_arg) of (Some b, Some h) \<Rightarrow> h | _ \<Rightarrow> current_head self)"
    using checkout_request_fields(6) [OF req] r by (simp add: fst_save)
  have "fst (save new_pk objects c) \<in> set (snd (save new_pk objects c))"
    by (auto simp: save_def Let_def list_ex_iff)
  then show "r \<in> set (snd (clone get_repo checkout generated_uuid new_pk objects self branch_arg head_arg))"
    using r t by simp
qed

text \<open>
  C7 at a concrete call. \<^verbatim>\<open>repo_configs\<close> was last synced at commit \<^verbatim>\<open>aaa111\<close> of
  \<^verbatim>\<open>main\<close>. Cloning it with \<^verbatim>\<open>branch = "dev"\<close> checks out commit \<^verbatim>\<open>bbb222\<close>; the
  record that is returned and persisted still has \<^verbatim>\<open>current_head = "aaa111"\<close>.
\<close>

theorem clone_current_head_stale:
  "checkout_tip ''/opt/nautobot/git/configs_u-9'' ''https://example.com/r.git'' ''dev'' None
     = Inr (''bbb222'', True)
   \<and> clone get_repo_ok checkout_tip ''u-9'' ''id-3'' [repo_configs, repo_jobs] repo_configs (Some ''dev'') None
     = (Inr (repo_configs\<lparr>pk := Some ''id-3'', name := ''configs (u-9)'', slug := ''configs_u-9'',
                          branch := ''dev''\<rparr>),
        [repo_configs, repo_jobs,
         repo_configs\<lparr>pk := Some ''id-3'', name := ''configs (u-9)'', slug := ''configs_u-9'',
                      branch := ''dev''\<rparr>])
   \<and> current_head (repo_configs\<lparr>pk := Some ''id-3'', name := ''configs (u-9)'', slug := ''configs_u-9'',
                                branch := ''dev''\<rparr>) = ''aaa111''"
  by (simp add: clone_def clone_checkout_def save_def Let_def shallow_copy_def get_repo_ok_def
      checkout_tip_def repo_configs_def repo_jobs_def)

lemma shares_content_self:
  "provided_contents a \<noteq> [] \<Longrightarrow> provided_contents b = provided_contents a \<Longrightarrow> shares_content a b"
  by (cases "provided_contents a") (simp_all add: shares_content_def)

text \<open>
  C9. A successful \<^verbatim>\<open>clone\<close> of a persisted record with non-empty
  \<^verbatim>\<open>provided_contents\<close>, with a key that is new to the table: the clone has the source's
  \<^verbatim>\<open>remote_url\<close> and \<^verbatim>\<open>provided_contents\<close> and is a row of the table; the overlap check
  of \<^verbatim>\<open>clean\<close>, which \<^verbatim>\<open>clone\<close> does not run, refuses it; it conflicts with the table
  the call leaves, so the invariant does not hold there.
\<close>

theorem clone_breaks_no_overlap:
  assumes "fst (clone get_repo checkout generated_uuid new_pk objects self branch_arg head_arg) = Inr r"
    and "list_ex (\<lambda>x. pk x = pk self \<and> remote_url x = remote_url self
                      \<and> provided_contents x = provided_contents self) objects"
    and "\<not> list_ex (\<lambda>x. pk x = Some new_pk) objects"
    and "provided_contents self \<noteq> []"
  shows "remote_url r = remote_url self \<and> provided_contents r = provided_contents self
     \<and> r \<in> set (snd (clone get_repo checkout generated_uuid new_pk objects self branch_arg head_arg))
     \<and> check_overlap objects r = Some (ValidationError (ContentsOverlap (remote_url self)))
     \<and> conflicts (snd (clone get_repo checkout generated_uuid new_pk objects self branch_arg head_arg)) r
     \<and> \<not> no_overlap_invariant
           (snd (clone get_repo checkout generated_uuid new_pk objects self branch_arg head_arg))"
proof -
  let ?table = "snd (clone get_repo checkout generated_uuid new_pk objects self branch_arg head_arg)"
  from clone_success [OF assms(1)] obtain c b h where
    req: "checkout_request generated_uuid self branch_arg head_arg = Some (c, b, h)"
    and r: "r = fst (save new_pk objects c)"
    and t: "?table = snd (save new_pk objects c)"
    by blast
  have pkc: "pk c = None" by (rule checkout_request_pk [OF req])
  have pkr: "pk r = Some new_pk" using r pkc by (simp add: pk_fst_save)
  have url: "remote_url r = remote_url self" and pc: "provided_contents r = provided_contents self"
    using r checkout_request_fields(1,2) [OF req] by (simp_all add: fst_save)
  have table: "?table = objects @ [r]"
    using t r snd_save_fresh [OF pkc assms(3)] by simp
  from assms(2) obtain x where x: "x \<in> set objects" "pk x = pk self"
      "remote_url x = remote_url self" "provided_contents x = provided_contents self"
    by (auto simp: list_ex_iff)
  from x(1) assms(3) have "pk x \<noteq> Some new_pk"
    by (auto simp: list_ex_iff)
  moreover have "shares_content r x"
    using shares_content_self [of r x] pc x(4) assms(4) by simp
  ultimately have other: "pk x \<noteq> pk r \<and> remote_url x = remote_url r \<and> shares_content r x"
    using pkr url x(3) by simp
  with x(1) have c1: "conflicts objects r"
    by (auto simp: conflicts_def list_ex_iff)
  from other x(1) have c2: "conflicts ?table r"
    by (auto simp: conflicts_def list_ex_iff table)
  have "r \<in> set ?table" by (simp add: table)
  with c2 have "\<not> no_overlap_invariant ?table"
    by (auto simp: no_overlap_invariant_def list_all_iff)
  moreover have "check_overlap objects r = Some (ValidationError (ContentsOverlap (remote_url self)))"
    using c1 pc url assms(4) by (simp add: check_overlap_conflicts)
  ultimately show ?thesis
    using url pc c2 \<open>r \<in> set ?table\<close> by simp
qed

theorem clone_breaks_no_overlap_witness:
  "no_overlap_invariant [repo_configs, repo_jobs]
   \<and> fst (clone get_repo_ok checkout_tip ''u-9'' ''id-3'' [repo_configs, repo_jobs] repo_configs None None)
       = Inr (repo_configs\<lparr>pk := Some ''id-3'', name := ''configs (u-9)'', slug := ''configs_u-9''\<rparr>)
   \<and> \<not> no_overlap_invariant
         (snd (clone get_repo_ok checkout_tip ''u-9'' ''id-3'' [repo_configs, repo_jobs] repo_configs None None))"
proof -
  let ?r = "repo_configs\<lparr>pk := Some ''id-3'', name := ''configs (u-9)'', slug := ''configs_u-9''\<rparr>"
  have h0: "no_overlap_invariant [repo_configs, repo_jobs]"
    by (simp add: no_overlap_invariant_def conflicts_def shares_content_def repo_configs_def repo_jobs_def)
  have h1: "fst (clone get_repo_ok checkout_tip ''u-9'' ''id-3'' [repo_configs, repo_jobs] repo_configs None None)
       = Inr ?r"
    by (simp add: clone_def clone_checkout_def save_def Let_def shallow_copy_def get_repo_ok_def
        checkout_tip_def repo_configs_def repo_jobs_def)
  have h2: "list_ex (\<lambda>x. pk x = pk repo_configs \<and> remote_url x = remote_url repo_configs
                      \<and> provided_contents x = provided_contents repo_configs) [repo_configs, repo_jobs]"
    by simp
  have h3: "\<not> list_ex (\<lambda>x. pk x = Some ''id-3'') [repo_configs, repo_jobs]"
    by (simp add: repo_configs_def repo_jobs_def)
  have h4: "provided_contents repo_configs \<noteq> []"
    by (simp add: repo_configs_def)
  show ?thesis
    using h0 h1 clone_breaks_no_overlap [where get_repo = get_repo_ok and checkout = checkout_tip,
        OF h1 h2 h3 h4]
    by simp
qed

text \<open>
  C8. With enqueue functions that each add one job of their kind, \<^verbatim>\<open>sync\<close> is one call
  of one of them: it adds exactly one job to the queue and returns it, the diff job when
  \<^verbatim>\<open>dry_run\<close> is set and the pull-and-refresh job otherwise, for the repository it was
  called on. Which of the two it is depends on \<^verbatim>\<open>dry_run\<close> alone. \<^verbatim>\<open>sync\<close> has no
  access to the table of repositories or to the Git helpers.
\<close>

theorem sync_enqueues_one_job:
  assumes "enqueues_one git_repository_diff_origin_and_local enqueue_diff"
    and "enqueues_one pull_git_repository_and_refresh_data enqueue_pull"
  shows "sync enqueue_diff enqueue_pull self user dry_run jobs
       = (if dry_run then enqueue_diff self user jobs else enqueue_pull self user jobs)
     \<and> snd (sync enqueue_diff enqueue_pull self user dry_run jobs)
       = jobs @ [fst (sync enqueue_diff enqueue_pull self user dry_run jobs)]
     \<and> task_name (fst (sync enqueue_diff enqueue_pull self user dry_run jobs))
       = (if dry_run then git_repository_diff_origin_and_local
          else pull_git_repository_and_refresh_data)
     \<and> task_repository (fst (sync enqueue_diff enqueue_pull self user dry_run jobs)) = pk self
     \<and> task_name (fst (sync enqueue_diff enqueue_pull self user dry_run jobs))
       = task_name (fst (sync enqueue_diff enqueue_pull self' user' dry_run jobs'))"
  using assms by (simp add: sync_def enqueues_one_def)

theorem sync_enqueues_one_job_witness:
  "enqueues_one git_repository_diff_origin_and_local enqueue_git_repository_diff_origin_and_local
   \<and> enqueues_one pull_git_repository_and_refresh_data enqueue_pull_git_repository_and_refresh_data
   \<and> sync enqueue_git_repository_diff_origin_and_local enqueue_pull_git_repository_and_refresh_data
       repo_configs ''alice'' True []
     = (\<lparr>task_name = git_repository_diff_origin_and_local, task_repository = Some ''id-1'',
         task_user = ''alice''\<rparr>,
        [\<lparr>task_name = git_repository_diff_origin_and_local, task_repository = Some ''id-1'',
          task_user = ''alice''\<rparr>])
   \<and> task_name (fst (sync enqueue_git_repository_diff_origin_and_local
                        enqueue_pull_git_repository_and_refresh_data repo_configs ''alice'' False []))
     = pull_git_repository_and_refresh_data"
proof -
  have h1: "enqueues_one git_repository_diff_origin_and_local enqueue_git_repository_diff_origin_and_local"
    by (simp add: enqueues_one_def enqueue_git_repository_diff_origin_and_local_def enqueue_job_def Let_def)
  have h2: "enqueues_one pull_git_repository_and_refresh_data enqueue_pull_git_repository_and_refresh_data"
    by (simp add: enqueues_one_def enqueue_pull_git_repository_and_refresh_data_def enqueue_job_def Let_def)
  have h3: "sync enqueue_git_repository_diff_origin_and_local enqueue_pull_git_repository_and_refresh_data
       repo_configs ''alice'' True []
     = (\<lparr>task_name = git_repository_diff_origin_and_local, task_repository = Some ''id-1'',
         task_user = ''alice''\<rparr>,
        [\<lparr>task_name = git_repository_diff_origin_and_local, task_repository = Some ''id-1'',
          task_user = ''alice''\<rparr>])"
    by (simp add: sync_def enqueue_git_repository_diff_origin_and_local_def enqueue_job_def Let_def
        repo_configs_def)
  have h4: "task_name (fst (sync enqueue_git_repository_diff_origin_and_local
                        enqueue_pull_git_repository_and_refresh_data repo_configs ''alice'' False []))
     = pull_git_repository_and_refresh_data"
  proof -
    from sync_enqueues_one_job [OF h1 h2, of repo_configs "''alice''" False "[]" repo_configs "''alice''" "[]"]
    have "task_name (fst (sync enqueue_git_repository_diff_origin_and_local
                        enqueue_pull_git_repository_and_refresh_data repo_configs ''alice'' False []))
       = (if False then git_repository_diff_origin_and_local else pull_git_repository_and_refresh_data)"
      by blast
    then show ?thesis by (simp only: if_False)
  qed
  show ?thesis
    using h1 h2 h3 h4 by blast
qed

end
